theory Spec2Isabelle
  imports
    Complex_Main
    "HOL-Library.Char_ord"
    "HOL-Library.List_Lexorder"
    "HOL-Library.Log_Nat"
    "HOL-Library.Product_Lexorder"
begin

section \<open>The bid log\<close>

text \<open>
  The notebook \<^verbatim>\<open>facebook_notebook.ipynb\<close> is a linear sequence of cells over pandas
  frames. A frame is modelled column-wise as pandas stores it: a list of rows for the
  columns read from a file, and one list per column that a cell adds, running parallel to
  the rows. A missing cell (NaN) is \<open>None\<close>. Timestamps are 64-bit integers far from the
  bounds of their type and are modelled as \<open>int\<close>; the float64 columns computed from them
  are modelled as exact numbers (\<open>int\<close> for differences, \<open>real\<close> for statistics), so
  rounding is not part of the model.
\<close>

text \<open>One row of \<^verbatim>\<open>data/bids.csv\<close>.\<close>

record bid =
  bid_id :: int
  bidder_id :: string
  auction :: "string option"
  merchandise :: "string option"
  device :: "string option"
  time :: int
  country :: "string option"
  ip :: "string option"
  url :: "string option"

text \<open>
  Cell 3: \<^verbatim>\<open>df_bids = df_bids.replace({' ': ''}, regex = True)\<close>. The regular expression
  is the single space character; every occurrence is replaced by the empty string in
  every string cell. Numeric columns and missing cells are left as they are.
\<close>

definition remove_spaces :: "string \<Rightarrow> string" where
  "remove_spaces s = filter (\<lambda>c. c \<noteq> CHR '' '') s"

definition replace_row :: "bid \<Rightarrow> bid" where
  "replace_row b =
     b\<lparr>bidder_id := remove_spaces (bidder_id b),
       auction := map_option remove_spaces (auction b),
       merchandise := map_option remove_spaces (merchandise b),
       device := map_option remove_spaces (device b),
       country := map_option remove_spaces (country b),
       ip := map_option remove_spaces (ip b),
       url := map_option remove_spaces (url b)\<rparr>"

definition df_bids :: "bid list \<Rightarrow> bid list" where
  "df_bids raw = map replace_row raw"

text \<open>
  Cell 4: \<^verbatim>\<open>df_bids.sort(['bidder_id', 'time'], ascending = [True, True])\<close>. With more
  than one sort column pandas sorts lexicographically on the columns with a stable
  algorithm, so rows that agree on both keys keep their order in the frame.
\<close>

definition df_bids_sorted :: "bid list \<Rightarrow> bid list" where
  "df_bids_sorted df = sort_key (\<lambda>b. (bidder_id b, time b)) df"

text \<open>
  \<^verbatim>\<open>Series.unique()\<close>: the distinct values in order of first appearance. Cell 5 builds the
  frame \<^verbatim>\<open>bids\<close> with one row per value of
  \<^verbatim>\<open>df_bids_sorted['bidder_id'].unique()\<close>.
\<close>

definition unique :: "'a list \<Rightarrow> 'a list" where
  "unique xs = rev (remdups (rev xs))"

text \<open>
  \<^verbatim>\<open>df.groupby('bidder_id')[col]\<close>: the group of the key \<open>a\<close> holds the cells of the
  column \<open>col\<close> at the rows whose \<^verbatim>\<open>bidder_id\<close> is \<open>a\<close>, in the order of the frame.
\<close>

definition groupby :: "bid list \<Rightarrow> 'a list \<Rightarrow> string \<Rightarrow> 'a list" where
  "groupby df col a = map snd (filter (\<lambda>p. bidder_id (fst p) = a) (zip df col))"

text \<open>
  Cell 7, \<^verbatim>\<open>df_bids_sorted.groupby('bidder_id')['time'].diff()\<close>: every row gets its time
  minus the time of the previous row of the same bidder, and NaN when there is no such
  row. \<open>prev\<close> holds the time last seen for each bidder.
\<close>

fun diff_from :: "(string \<rightharpoonup> int) \<Rightarrow> bid list \<Rightarrow> int option list" where
  "diff_from prev [] = []"
| "diff_from prev (b # bs) =
     map_option (\<lambda>p. time b - p) (prev (bidder_id b))
       # diff_from (prev(bidder_id b \<mapsto> time b)) bs"

definition timediff :: "bid list \<Rightarrow> int option list" where
  "timediff df = diff_from Map.empty df"

text \<open>
  \<^verbatim>\<open>timediff.astype(str).fillna('')\<close>. \<^verbatim>\<open>astype(str)\<close> applies Python's \<^verbatim>\<open>str\<close> to every
  cell of the float64 column, the missing ones too: \<^verbatim>\<open>str(nan)\<close> is the string
  \<^verbatim>\<open>'nan'\<close>, so the result has no missing cell and the \<^verbatim>\<open>fillna('')\<close> that follows
  finds nothing to fill. The rendering of a number by \<^verbatim>\<open>str\<close> (twelve significant
  digits, exponent notation beyond them) is the parameter \<open>str_float\<close>.
\<close>

definition astype_str :: "(int \<Rightarrow> string) \<Rightarrow> int option \<Rightarrow> string option" where
  "astype_str str_float x = (case x of None \<Rightarrow> Some ''nan'' | Some d \<Rightarrow> Some (str_float d))"

definition fillna :: "'a \<Rightarrow> 'a option \<Rightarrow> 'a" where
  "fillna v x = (case x of None \<Rightarrow> v | Some y \<Rightarrow> y)"

definition timediff_str :: "(int \<Rightarrow> string) \<Rightarrow> bid list \<Rightarrow> string list" where
  "timediff_str str_float df = map (\<lambda>x. fillna '''' (astype_str str_float x)) (timediff df)"

text \<open>
  Cell 8 loops over \<^verbatim>\<open>text_cols\<close>, the names of seven columns of the sorted frame: six
  read from the file and the string column \<^verbatim>\<open>timediff\<close> added by cell 7.
\<close>

datatype text_col = Auction | Merchandise | Device | Timediff | Country | Ip | Url

definition text_cols :: "text_col list" where
  "text_cols = [Auction, Merchandise, Device, Timediff, Country, Ip, Url]"

fun name :: "text_col \<Rightarrow> string" where
  "name Auction = ''auction''"
| "name Merchandise = ''merchandise''"
| "name Device = ''device''"
| "name Timediff = ''timediff''"
| "name Country = ''country''"
| "name Ip = ''ip''"
| "name Url = ''url''"

text \<open>\<^verbatim>\<open>df_bids_sorted[var]\<close> before the loop body overwrites it.\<close>

fun column :: "(int \<Rightarrow> string) \<Rightarrow> text_col \<Rightarrow> bid list \<Rightarrow> string option list" where
  "column str_float Auction df = map auction df"
| "column str_float Merchandise df = map merchandise df"
| "column str_float Device df = map device df"
| "column str_float Timediff df = map Some (timediff_str str_float df)"
| "column str_float Country df = map country df"
| "column str_float Ip df = map ip df"
| "column str_float Url df = map url df"

text \<open>
  \<^verbatim>\<open>df_bids_sorted[var] = var + "_" + df_bids_sorted[var].fillna("")\<close>: the column of
  prefixed tokens.
\<close>

definition token :: "text_col \<Rightarrow> string option \<Rightarrow> string" where
  "token var x = name var @ ''_'' @ fillna '''' x"

definition token_column :: "(int \<Rightarrow> string) \<Rightarrow> text_col \<Rightarrow> bid list \<Rightarrow> string list" where
  "token_column str_float var df = map (token var) (column str_float var df)"

text \<open>
  \<^verbatim>\<open>' '.join(x)\<close> and the tokenizer of cell 17, \<^verbatim>\<open>x.split(' ')\<close>. A split has at least
  one piece, so the first piece of the rest is always there to take the character.
\<close>

fun join :: "string list \<Rightarrow> string" where
  "join [] = []"
| "join [x] = x"
| "join (x # y # ys) = x @ '' '' @ join (y # ys)"

fun tokens :: "string \<Rightarrow> string list" where
  "tokens [] = [[]]"
| "tokens (c # cs) =
     (if c = CHR '' '' then [] # tokens cs
      else (case tokens cs of w # ws \<Rightarrow> (c # w) # ws | [] \<Rightarrow> [[c]]))"

text \<open>
  The two columns that cell 8 writes into \<^verbatim>\<open>bids\<close> for \<open>var\<close>, at the row of bidder \<open>a\<close>:
  \<^verbatim>\<open>groupby('bidder_id')[var].apply(lambda x: "%s" % ' '.join(x))\<close> and
  \<^verbatim>\<open>groupby('bidder_id')[var].nunique()\<close>. Every cell of the token column is a string,
  so \<^verbatim>\<open>nunique\<close> has no missing value to drop.
\<close>

definition bids_text :: "(int \<Rightarrow> string) \<Rightarrow> bid list \<Rightarrow> text_col \<Rightarrow> string \<Rightarrow> string" where
  "bids_text str_float df var a = join (groupby df (token_column str_float var df) a)"

definition bids_nunique_num :: "(int \<Rightarrow> string) \<Rightarrow> bid list \<Rightarrow> text_col \<Rightarrow> string \<Rightarrow> nat" where
  "bids_nunique_num str_float df var a =
     length (remdups (groupby df (token_column str_float var df) a))"

section \<open>Statistics of the time differences\<close>

text \<open>
  Cell 9. \<^verbatim>\<open>groupby('bidder_id')['timediff_num'].max()\<close> skips the missing cells of a
  group and is missing when the group has no other cell. The result is a series with
  one entry per bidder; \<^verbatim>\<open>mean()\<close> of a series skips its missing entries and is missing
  when there is no other entry; \<^verbatim>\<open>fillna\<close> with a missing value changes nothing.
\<close>

definition present :: "'a option list \<Rightarrow> 'a list" where
  "present xs = map the (filter (\<lambda>x. x \<noteq> None) xs)"

definition group_max :: "int option list \<Rightarrow> real option" where
  "group_max xs =
     (case present xs of [] \<Rightarrow> None | y # ys \<Rightarrow> Some (real_of_int (fold max ys y)))"

definition series_mean :: "real option list \<Rightarrow> real option" where
  "series_mean s =
     (case present s of [] \<Rightarrow> None | y # ys \<Rightarrow> Some (sum_list (y # ys) / real (length (y # ys))))"

definition series_fillna :: "real option \<Rightarrow> real option list \<Rightarrow> real option list" where
  "series_fillna m s = map (\<lambda>x. case x of None \<Rightarrow> m | Some v \<Rightarrow> Some v) s"

text \<open>The index of the aggregated frame \<^verbatim>\<open>bids\<close> (cell 5).\<close>

definition bidders :: "bid list \<Rightarrow> string list" where
  "bidders df = unique (map bidder_id df)"

text \<open>
  \<^verbatim>\<open>max_diff\<close> and \<^verbatim>\<open>min_diff\<close> as series over the bidders. Both lines of the source
  call \<^verbatim>\<open>.max()\<close>:
  \<^verbatim>\<open>min_diff = df_bids_sorted.groupby('bidder_id')['timediff_num'].max()\<close>.
\<close>

definition max_diff :: "bid list \<Rightarrow> real option list" where
  "max_diff df =
     (let s = map (\<lambda>a. group_max (groupby df (timediff df) a)) (bidders df)
      in series_fillna (series_mean s) s)"

definition min_diff :: "bid list \<Rightarrow> real option list" where
  "min_diff df =
     (let s = map (\<lambda>a. group_max (groupby df (timediff df) a)) (bidders df)
      in series_fillna (series_mean s) s)"

text \<open>\<^verbatim>\<open>range_diff = max_diff - min_diff\<close>, entry by entry; missing when either is.\<close>

definition range_diff :: "bid list \<Rightarrow> real option list" where
  "range_diff df =
     map2 (\<lambda>x y. case (x, y) of (Some u, Some v) \<Rightarrow> Some (u - v) | _ \<Rightarrow> None)
       (max_diff df) (min_diff df)"

text \<open>
  The columns \<^verbatim>\<open>maxdiff_num\<close>, \<^verbatim>\<open>mindiff_num\<close> and \<^verbatim>\<open>rangediff_num\<close> of \<^verbatim>\<open>bids\<close> at the
  row of bidder \<open>a\<close>: the assignment aligns the series with the index of \<^verbatim>\<open>bids\<close>.
\<close>

definition at_bidder :: "bid list \<Rightarrow> real option list \<Rightarrow> string \<Rightarrow> real option" where
  "at_bidder df s a = (case map_of (zip (bidders df) s) a of None \<Rightarrow> None | Some v \<Rightarrow> v)"

definition bids_maxdiff_num :: "bid list \<Rightarrow> string \<Rightarrow> real option" where
  "bids_maxdiff_num df a = at_bidder df (max_diff df) a"

definition bids_mindiff_num :: "bid list \<Rightarrow> string \<Rightarrow> real option" where
  "bids_mindiff_num df a = at_bidder df (min_diff df) a"

definition bids_rangediff_num :: "bid list \<Rightarrow> string \<Rightarrow> real option" where
  "bids_rangediff_num df a = at_bidder df (range_diff df) a"

section \<open>The aggregated frame and the rosters\<close>

text \<open>
  One row of the frame \<^verbatim>\<open>bids\<close> after cells 5 to 9. The seven \<^verbatim>\<open>_text\<close> columns and the
  seven \<^verbatim>\<open>_nunique_num\<close> columns are each one field indexed by the column. The columns
  \<^verbatim>\<open>maxtime_num\<close>, \<^verbatim>\<open>mintime_num\<close>, \<^verbatim>\<open>meandiff_num\<close>, \<^verbatim>\<open>mediandiff_num\<close> and the eight
  quantile columns are not part of the model.
\<close>

record bids_row =
  bidder_id :: string
  auction_count_num :: nat
  text_of :: "text_col \<Rightarrow> string"
  nunique_num :: "text_col \<Rightarrow> nat"
  maxdiff_num :: "real option"
  mindiff_num :: "real option"
  rangediff_num :: "real option"

definition bids :: "(int \<Rightarrow> string) \<Rightarrow> bid list \<Rightarrow> bids_row list" where
  "bids str_float df =
     map (\<lambda>a. \<lparr>bidder_id = a,
                auction_count_num = length (groupby df (map bid.bidder_id df) a),
                text_of = (\<lambda>var. bids_text str_float df var a),
                nunique_num = (\<lambda>var. bids_nunique_num str_float df var a),
                maxdiff_num = bids_maxdiff_num df a,
                mindiff_num = bids_mindiff_num df a,
                rangediff_num = bids_rangediff_num df a\<rparr>)
       (bidders df)"

text \<open>
  Rows of \<^verbatim>\<open>data/test.csv\<close> and of \<^verbatim>\<open>data/train.csv\<close>; the second has the label column
  \<^verbatim>\<open>outcome\<close> in addition. \<^verbatim>\<open>df_train.append(df_test)\<close> keeps the rows of \<^verbatim>\<open>df_train\<close>,
  then the rows of \<^verbatim>\<open>df_test\<close> with a missing \<^verbatim>\<open>outcome\<close>.
\<close>

record test_row =
  bidder_id :: string
  payment_account :: "string option"
  address :: "string option"

record train_row = test_row +
  outcome :: "real option"

definition append_df :: "train_row list \<Rightarrow> test_row list \<Rightarrow> train_row list" where
  "append_df df_train df_test =
     df_train @ map (\<lambda>r. test_row.extend r (train_row.fields None)) df_test"

text \<open>
  \<^verbatim>\<open>df_combo.merge(bids, how = 'left', left_on = ['bidder_id'], right_on = ['bidder_id'])\<close>:
  every left row, in the order of the left frame, once for each row of \<^verbatim>\<open>bids\<close> with the
  same key, and once with all the columns of \<^verbatim>\<open>bids\<close> missing when there is none.
\<close>

record combo_row = train_row +
  features :: "bids_row option"

definition merge_row :: "train_row \<Rightarrow> bids_row option \<Rightarrow> combo_row" where
  "merge_row l f = train_row.extend l (combo_row.fields f)"

definition merge :: "train_row list \<Rightarrow> bids_row list \<Rightarrow> combo_row list" where
  "merge left right =
     concat (map (\<lambda>l.
        case filter (\<lambda>r. bids_row.bidder_id r = test_row.bidder_id l) right of
          [] \<Rightarrow> [merge_row l None]
        | m # ms \<Rightarrow> map (\<lambda>r. merge_row l (Some r)) (m # ms)) left)"

text \<open>
  Cell 10 as a whole, from the three input files. The columns \<^verbatim>\<open>address_text\<close> and
  \<^verbatim>\<open>account_text\<close> that it adds are left out: no vectorizer includes them.
\<close>

definition df_combo ::
  "(int \<Rightarrow> string) \<Rightarrow> bid list \<Rightarrow> train_row list \<Rightarrow> test_row list \<Rightarrow> combo_row list" where
  "df_combo str_float raw df_train df_test =
     merge (append_df df_train df_test) (bids str_float (df_bids_sorted (df_bids raw)))"

text \<open>
  Cell 12 fills the missing cells of the columns whose name contains \<^verbatim>\<open>num\<close> or \<^verbatim>\<open>text\<close>;
  \<^verbatim>\<open>bidder_id\<close> and \<^verbatim>\<open>outcome\<close> are not among them, and they are the only columns that
  the two partitions below are selected with.

  Cell 13: \<^verbatim>\<open>test_dat = df_combo[df_combo.bidder_id.isin(sample.bidder_id)]\<close>, where
  \<^verbatim>\<open>sample\<close> is the submission template. Cell 14:
  \<^verbatim>\<open>train_dat = df_combo[~pd.isnull(df_combo.outcome)]\<close>.
\<close>

record sample_row =
  bidder_id :: string
  prediction :: real

definition test_dat :: "sample_row list \<Rightarrow> combo_row list \<Rightarrow> combo_row list" where
  "test_dat sample df =
     filter (\<lambda>r. test_row.bidder_id r \<in> set (map sample_row.bidder_id sample)) df"

definition train_dat :: "combo_row list \<Rightarrow> combo_row list" where
  "train_dat df = filter (\<lambda>r. outcome r \<noteq> None) df"

section \<open>The order check\<close>

datatype error = AttributeError | ValueError | TypeError

text \<open>
  Cell 13: \<^verbatim>\<open>print (sample.bidder_id.values==test_dat['bidder_id'].values).all()\<close>.
  numpy compares two arrays of the same length element by element, and an array of one
  element against every element of the other. For any other pair of lengths the numpy
  of Python 2 gives the plain \<^verbatim>\<open>False\<close> for \<^verbatim>\<open>==\<close>, which has no method \<^verbatim>\<open>all\<close>.
\<close>

definition order_check :: "string list \<Rightarrow> string list \<Rightarrow> error + bool" where
  "order_check s t =
     (if length s = length t then Inr (list_all2 (=) s t)
      else if length s = 1 then Inr (list_all (\<lambda>y. hd s = y) t)
      else if length t = 1 then Inr (list_all (\<lambda>x. x = hd t) s)
      else Inl AttributeError)"

section \<open>The bag of classifiers\<close>

text \<open>The parameters of \<^verbatim>\<open>xgb.XGBClassifier\<close> as cell 20 sets them.\<close>

record XGBClassifier =
  objective :: string
  learning_rate :: real
  max_depth :: nat
  nthread :: nat
  seed :: nat
  subsample :: real
  colsample_bytree :: real
  min_child_weight :: nat
  n_estimators :: nat
  gamma :: real
  silent :: bool

definition clf :: XGBClassifier where
  "clf = \<lparr>objective = ''binary:logistic'', learning_rate = 5 / 100, max_depth = 5,
          nthread = 8, seed = 42, subsample = 4 / 10, colsample_bytree = 7 / 10,
          min_child_weight = 1, n_estimators = 100, gamma = 15 / 100, silent = True\<rparr>"

definition rounds :: nat where
  "rounds = 15"

text \<open>
  \<^verbatim>\<open>np.zeros((n, rounds))\<close> as a list of \<open>n\<close> rows, and \<^verbatim>\<open>preds_mat[:, i] = preds_tmp\<close>: the
  vector must have one entry per row, or a single entry, which numpy writes into every
  row; any other length raises \<^verbatim>\<open>ValueError\<close>.
\<close>

definition zeros :: "nat \<Rightarrow> nat \<Rightarrow> real list list" where
  "zeros n k = replicate n (replicate k 0)"

definition set_column :: "real list list \<Rightarrow> nat \<Rightarrow> real list \<Rightarrow> error + real list list" where
  "set_column m i v =
     (if length v = length m then Inr (map2 (\<lambda>row x. row[i := x]) m v)
      else if length v = 1 then Inr (map (\<lambda>row. row[i := hd v]) m)
      else Inl ValueError)"

text \<open>
  The loop of cell 20. \<open>fit_predict c\<close> stands for \<^verbatim>\<open>clf.fit(xtrain, y)\<close> followed by
  \<^verbatim>\<open>clf.predict_proba(xtest)[:, 1]\<close> with the parameters \<open>c\<close>: the classifier is outside
  the repository and is a parameter of the model. \<^verbatim>\<open>clf.set_params(seed = i + 1)\<close>
  changes the one classifier object, which the next round starts from.
\<close>

fun bag ::
  "(XGBClassifier \<Rightarrow> error + real list) \<Rightarrow> XGBClassifier \<Rightarrow> real list list \<Rightarrow> nat list
     \<Rightarrow> error + real list list" where
  "bag fit_predict c preds_mat [] = Inr preds_mat"
| "bag fit_predict c preds_mat (i # is) =
     (let c' = c\<lparr>seed := i + 1\<rparr> in
      case fit_predict c' of
        Inl e \<Rightarrow> Inl e
      | Inr preds_tmp \<Rightarrow>
          (case set_column preds_mat i preds_tmp of
             Inl e \<Rightarrow> Inl e
           | Inr preds_mat' \<Rightarrow> bag fit_predict c' preds_mat' is))"

text \<open>\<^verbatim>\<open>preds_mat.mean(axis = 1)\<close>: the mean of every row.\<close>

definition mean_axis1 :: "real list list \<Rightarrow> real list" where
  "mean_axis1 m = map (\<lambda>row. sum_list row / real (length row)) m"

definition bagged_preds ::
  "(XGBClassifier \<Rightarrow> error + real list) \<Rightarrow> nat \<Rightarrow> error + real list" where
  "bagged_preds fit_predict n =
     (case bag fit_predict clf (zeros n rounds) [0..<rounds] of
        Inl e \<Rightarrow> Inl e
      | Inr preds_mat \<Rightarrow> Inr (mean_axis1 preds_mat))"

section \<open>From the order check to the submission file\<close>

text \<open>
  Cells 13 to 20 in one function. What the run prints and the rows it writes to
  \<^verbatim>\<open>submissions/facebook_submission.csv\<close> are its result; an exception ends the run
  with \<open>Inl\<close> and nothing is written. \<open>stages\<close> stands for the scaling, the vectorizers
  and the feature selection (cells 14 to 19 and the first lines of cell 20), which give
  the two matrices or raise; \<open>xgb\<close> is the classifier. Both are parameters.
  \<^verbatim>\<open>sample.prediction = bagged_preds\<close> sets the prediction column of the template, and
  \<^verbatim>\<open>to_csv\<close> writes the template.
\<close>

record run =
  printed :: "bool list"
  written :: "sample_row list"

definition cells_13_to_20 ::
  "(combo_row list \<Rightarrow> combo_row list \<Rightarrow> combo_row list \<Rightarrow> error + 'x \<times> 'x) \<Rightarrow>
   (XGBClassifier \<Rightarrow> 'x \<Rightarrow> real list \<Rightarrow> 'x \<Rightarrow> error + real list) \<Rightarrow>
   sample_row list \<Rightarrow> combo_row list \<Rightarrow> error + run" where
  "cells_13_to_20 stages xgb sample df =
     (case order_check (map sample_row.bidder_id sample)
             (map test_row.bidder_id (test_dat sample df)) of
        Inl e \<Rightarrow> Inl e
      | Inr ok \<Rightarrow>
          (let y = map (\<lambda>r. the (outcome r)) (train_dat df) in
           case stages df (train_dat df) (test_dat sample df) of
             Inl e \<Rightarrow> Inl e
           | Inr (xtrain, xtest) \<Rightarrow>
               (case bagged_preds (\<lambda>c. xgb c xtrain y xtest) (length sample) of
                  Inl e \<Rightarrow> Inl e
                | Inr ps \<Rightarrow>
                    Inr \<lparr>printed = [ok],
                         written = map2 (\<lambda>r p. r\<lparr>prediction := p\<rparr>) sample ps\<rparr>)))"

section \<open>Numbers of the numeric matrices\<close>

text \<open>
  The numeric matrices hold float64 numbers, and the scaler computes with them: every
  sum, product and quotient is rounded. A float64 is a rational number, or one of the
  two infinities, or not a number. The two zeros of float64 are one value here: they
  compare equal, and the only division of the scaler has a divisor that is not zero.
\<close>

datatype float64 = Finite rat | PlusInf | MinusInf | NaN











fun le64 :: "float64 \<Rightarrow> float64 \<Rightarrow> bool" where
  "le64 (Finite a) (Finite b) = (a \<le> b)"
| "le64 NaN y = False"
| "le64 x NaN = False"
| "le64 MinusInf y = True"
| "le64 x PlusInf = True"
| "le64 PlusInf y = False"
| "le64 x MinusInf = False"

section \<open>The numeric scaler\<close>













section \<open>The feature selection\<close>








section \<open>Auxiliary functions of the proofs\<close>

text \<open>One round of the loop of cell 20 when the vector \<open>p i\<close> has one entry per row: what
  \<^verbatim>\<open>preds_mat[:, i] = preds_tmp\<close> makes of \<^verbatim>\<open>preds_mat\<close>.\<close>

definition store :: "(nat \<Rightarrow> real list) \<Rightarrow> nat \<Rightarrow> real list list \<Rightarrow> real list list" where
  "store p i m = map2 (\<lambda>row x. row[i := x]) m (p i)"

section \<open>Inputs used in the examples\<close>

text \<open>
  Python's \<^verbatim>\<open>str\<close> of a float64 that holds a whole number of fewer than twelve digits:
  the decimal digits followed by \<^verbatim>\<open>.0\<close>. It is the instance of the parameter
  \<open>str_float\<close> that the examples use; their differences are all in this range.
\<close>

fun digits :: "nat \<Rightarrow> string" where
  "digits n =
     (if n < 10 then [char_of (48 + n)] else digits (n div 10) @ [char_of (48 + n mod 10)])"

declare digits.simps [simp del]

definition str_whole :: "int \<Rightarrow> string" where
  "str_whole d = (if d < 0 then ''-'' else '''') @ digits (nat \<bar>d\<bar>) @ ''.0''"

text \<open>A bid with the given bidder, time, merchandise and country; the other cells are missing.\<close>

definition a_bid :: "int \<Rightarrow> string \<Rightarrow> int \<Rightarrow> string option \<Rightarrow> string option \<Rightarrow> bid" where
  "a_bid n a t m c =
     \<lparr>bid_id = n, bidder_id = a, auction = None, merchandise = m, device = None,
      time = t, country = c, ip = None, url = None\<rparr>"

text \<open>One bidder with three bids at the times 10, 15 and 40.\<close>

definition three_bids :: "bid list" where
  "three_bids =
     [a_bid 1 ''a'' 10 (Some ''a'') None,
      a_bid 2 ''a'' 15 (Some ''b'') None,
      a_bid 3 ''a'' 40 (Some ''a'') None]"

text \<open>
  One bidder with two bids: the country of the first is missing in the file, the country
  of the second is a single space in the file. And one bidder with a single bid whose
  country is missing.
\<close>

definition blank_country_bids :: "bid list" where
  "blank_country_bids =
     [a_bid 1 ''a'' 10 (Some ''x'') None,
      a_bid 2 ''a'' 20 (Some ''x'') (Some '' '')]"

definition lone_bid :: "bid list" where
  "lone_bid = [a_bid 1 ''a'' 10 (Some ''x'') None]"

text \<open>
  Roster rows and template rows with only the bidder (and the label) given; the
  prediction column of the template holds zeros.
\<close>

definition a_test_row :: "string \<Rightarrow> test_row" where
  "a_test_row a = \<lparr>test_row.bidder_id = a, payment_account = None, address = None\<rparr>"

definition a_train_row :: "string \<Rightarrow> real option \<Rightarrow> train_row" where
  "a_train_row a y =
     \<lparr>test_row.bidder_id = a, payment_account = None, address = None, outcome = y\<rparr>"

definition a_sample_row :: "string \<Rightarrow> sample_row" where
  "a_sample_row a = \<lparr>sample_row.bidder_id = a, prediction = 0\<rparr>"

text \<open>
  A bid log in which six bidders have two bids each, ten time units apart, all bids
  with the same auction, merchandise, device, country, ip and url: every
  vectorizer of cell 19 finds terms that occur in all six documents. And roster rows
  with a payment account and an address.
\<close>

definition full_bid :: "int \<Rightarrow> string \<Rightarrow> int \<Rightarrow> bid" where
  "full_bid n a t =
     \<lparr>bid_id = n, bidder_id = a, auction = Some ''x1'', merchandise = Some ''mobile'',
      device = Some ''phone1'', time = t, country = Some ''us'', ip = Some ''1.2.3.4'',
      url = Some ''u1''\<rparr>"

definition six_bidders :: "bid list" where
  "six_bidders =
     [full_bid 1 ''a'' 10, full_bid 2 ''b'' 10, full_bid 3 ''c'' 10,
      full_bid 4 ''d'' 10, full_bid 5 ''e'' 10, full_bid 6 ''f'' 10,
      full_bid 7 ''a'' 20, full_bid 8 ''b'' 20, full_bid 9 ''c'' 20,
      full_bid 10 ''d'' 20, full_bid 11 ''e'' 20, full_bid 12 ''f'' 20]"

definition full_test_row :: "string \<Rightarrow> test_row" where
  "full_test_row a =
     \<lparr>test_row.bidder_id = a, payment_account = Some ''p1'', address = Some ''d1''\<rparr>"

definition full_train_row :: "string \<Rightarrow> real \<Rightarrow> train_row" where
  "full_train_row a y =
     \<lparr>test_row.bidder_id = a, payment_account = Some ''p1'', address = Some ''d1'',
      outcome = Some y\<rparr>"

definition four_labeled :: "train_row list" where
  "four_labeled =
     [full_train_row ''c'' 0, full_train_row ''d'' 1, full_train_row ''e'' 0,
      full_train_row ''f'' 1]"

text \<open>
  Stand-ins for the parts of the run that are parameters. For the stages: every
  vectorizer of cell 19 is fitted on one document per row of the joined table, and
  those with \<^verbatim>\<open>min_df = 5\<close> raise a \<^verbatim>\<open>ValueError\<close> when there are fewer than five documents;
  the stand-in raises then, and gives two matrices without content otherwise, as the
  stages do not raise on the log of the six bidders. For the classifier: one that
  predicts 1/4 and 3/4 whatever its seed, and one whose first prediction is its seed.
\<close>

definition five_documents ::
  "combo_row list \<Rightarrow> combo_row list \<Rightarrow> combo_row list \<Rightarrow> error + unit \<times> unit" where
  "five_documents df tr te = (if length df < 5 then Inl ValueError else Inr ((), ()))"

definition fixed_xgb :: "XGBClassifier \<Rightarrow> unit \<Rightarrow> real list \<Rightarrow> unit \<Rightarrow> error + real list" where
  "fixed_xgb c xtrain y xtest = Inr [1 / 4, 3 / 4]"

definition seed_xgb :: "XGBClassifier \<Rightarrow> error + real list" where
  "seed_xgb c = Inr [real (seed c), 1]"






text \<open>
  Two bidders, not in the order of their bidders or times: bidder a has bids at the
  times 20, 10 and 20, with the merchandise x, y and z, and bidder b has one bid.
\<close>

definition tied_bids :: "bid list" where
  "tied_bids =
     [a_bid 1 ''a'' 20 (Some ''x'') None,
      a_bid 2 ''b'' 5 (Some ''w'') None,
      a_bid 3 ''a'' 10 (Some ''y'') None,
      a_bid 4 ''a'' 20 (Some ''z'') None]"
section \<open>Groups of the sorted frame\<close>

text \<open>
  Selecting the group of a bidder commutes with every column that cells 7 and 8 compute:
  the cells of a group are those of the frame that holds the rows of the group alone.
\<close>

lemma groupby_map: "groupby df (map f df) a = map f (filter (\<lambda>b. bid.bidder_id b = a) df)"
  unfolding groupby_def by (induction df) auto

lemma groupby_map_col:
  "groupby df (map g col) a = map g (groupby df col a)"
  unfolding groupby_def
proof (induction df arbitrary: col)
  case Nil
  then show ?case by simp
next
  case (Cons b bs)
  then show ?case by (cases col) auto
qed

lemma groupby_diff_from:
  "prev a = prev' a \<Longrightarrow>
   groupby bs (diff_from prev bs) a = diff_from prev' (filter (\<lambda>b. bid.bidder_id b = a) bs)"
proof (induction bs arbitrary: prev prev')
  case Nil
  then show ?case by (simp add: groupby_def)
next
  case (Cons b bs)
  show ?case
  proof (cases "bid.bidder_id b = a")
    case True
    have "groupby bs (diff_from (prev(a \<mapsto> time b)) bs) a
            = diff_from (prev'(a \<mapsto> time b)) (filter (\<lambda>b. bid.bidder_id b = a) bs)"
      by (rule Cons.IH) simp
    with True Cons.prems show ?thesis
      by (simp add: groupby_def)
  next
    case False
    have "groupby bs (diff_from (prev(bid.bidder_id b \<mapsto> time b)) bs) a
            = diff_from prev' (filter (\<lambda>b. bid.bidder_id b = a) bs)"
      by (rule Cons.IH) (use False Cons.prems in simp)
    with False show ?thesis
      by (simp add: groupby_def)
  qed
qed

lemma groupby_timediff:
  "groupby df (timediff df) a = timediff (filter (\<lambda>b. bid.bidder_id b = a) df)"
  unfolding timediff_def by (rule groupby_diff_from) simp

lemma groupby_column:
  "groupby df (column str_float var df) a = column str_float var (filter (\<lambda>b. bid.bidder_id b = a) df)"
  by (cases var) (simp_all add: groupby_map groupby_map_col timediff_str_def groupby_timediff)

lemma groupby_token_column:
  "groupby df (token_column str_float var df) a
     = token_column str_float var (filter (\<lambda>b. bid.bidder_id b = a) df)"
  by (simp add: token_column_def groupby_map_col groupby_column)

lemma insort_key_cong_on:
  "(\<And>y. y \<in> set zs \<Longrightarrow> (f x \<le> f y) = (g x \<le> g y)) \<Longrightarrow> insort_key f x zs = insort_key g x zs"
  by (induction zs) auto

lemma sort_key_cong_on:
  "(\<And>x y. x \<in> set ys \<Longrightarrow> y \<in> set ys \<Longrightarrow> (f x \<le> f y) = (g x \<le> g y)) \<Longrightarrow>
   sort_key f ys = sort_key g ys"
proof (induction ys)
  case Nil
  then show ?case by simp
next
  case (Cons y ys)
  have "sort_key f ys = sort_key g ys" using Cons by simp
  moreover have "insort_key f y (sort_key g ys) = insort_key g y (sort_key g ys)"
    by (rule insort_key_cong_on) (simp add: Cons.prems)
  ultimately show ?case by simp
qed

lemma group_sorted:
  "filter (\<lambda>b. bid.bidder_id b = a) (df_bids_sorted df)
     = sort_key time (filter (\<lambda>b. bid.bidder_id b = a) df)"
proof -
  have "sort_key (\<lambda>b. (bid.bidder_id b, time b)) (filter (\<lambda>b. bid.bidder_id b = a) df)
          = sort_key time (filter (\<lambda>b. bid.bidder_id b = a) df)"
    by (rule sort_key_cong_on) (auto simp: less_eq_prod_def)
  then show ?thesis by (simp add: df_bids_sorted_def filter_sort)
qed

section \<open>Joining and splitting token sequences\<close>

lemma bids_text_of:
  "map (\<lambda>r. text_of r var) (bids str_float df) = map (bids_text str_float df var) (bidders df)"
  by (simp add: bids_def comp_def)

lemma groupby_self: "groupby df df a = filter (\<lambda>b. bid.bidder_id b = a) df"
  using groupby_map [of df "\<lambda>b. b" a] by simp

lemma tokens_not_Nil: "tokens s \<noteq> []"
  by (induction s) (auto split: list.splits)

lemma tokens_no_space: "CHR '' '' \<notin> set s \<Longrightarrow> tokens s = [s]"
  by (induction s) auto

lemma tokens_append_space:
  "CHR '' '' \<notin> set s \<Longrightarrow> tokens (s @ CHR '' '' # rest) = s # tokens rest"
  by (induction s) auto

lemma tokens_join:
  "xs \<noteq> [] \<Longrightarrow> list_all (\<lambda>s. CHR '' '' \<notin> set s) xs \<Longrightarrow> tokens (join xs) = xs"
proof (induction xs rule: join.induct)
  case 1
  then show ?case by simp
next
  case (2 x)
  then show ?case by (simp add: tokens_no_space)
next
  case (3 x y ys)
  then show ?case by (simp add: tokens_append_space del: tokens.simps)
qed

lemma name_no_space: "CHR '' '' \<notin> set (name var)"
  by (cases var) simp_all

lemma token_no_space:
  "CHR '' '' \<notin> set (fillna '''' x) \<Longrightarrow> CHR '' '' \<notin> set (token var x)"
  by (simp add: token_def name_no_space)

lemma remove_spaces_no_space: "CHR '' '' \<notin> set (remove_spaces s)"
  by (simp add: remove_spaces_def)

lemma fillna_replace_no_space:
  "CHR '' '' \<notin> set (fillna '''' (map_option remove_spaces x))"
  by (cases x) (simp_all add: fillna_def remove_spaces_no_space)

lemma replace_row_no_space:
  "CHR '' '' \<notin> set (bid.bidder_id (replace_row b))"
  "CHR '' '' \<notin> set (fillna '''' (auction (replace_row b)))"
  "CHR '' '' \<notin> set (fillna '''' (merchandise (replace_row b)))"
  "CHR '' '' \<notin> set (fillna '''' (device (replace_row b)))"
  "CHR '' '' \<notin> set (fillna '''' (country (replace_row b)))"
  "CHR '' '' \<notin> set (fillna '''' (ip (replace_row b)))"
  "CHR '' '' \<notin> set (fillna '''' (url (replace_row b)))"
  by (simp_all add: replace_row_def fillna_replace_no_space remove_spaces_no_space)

lemma length_diff_from: "length (diff_from prev bs) = length bs"
  by (induction bs arbitrary: prev) simp_all

lemma length_column: "length (column str_float var df) = length df"
  by (cases var) (simp_all add: timediff_str_def timediff_def length_diff_from)

lemma column_no_space:
  assumes sf: "\<forall>d. CHR '' '' \<notin> set (str_float d)"
    and df: "set df \<subseteq> set (df_bids raw)"
  shows "list_all (\<lambda>x. CHR '' '' \<notin> set (fillna '''' x)) (column str_float var df)"
proof -
  have row: "\<exists>r. b = replace_row r" if "b \<in> set df" for b
    using that df by (auto simp: df_bids_def)
  have td: "CHR '' '' \<notin> set (fillna '''' (astype_str str_float x))" for x
    using sf by (cases x) (simp_all add: astype_str_def fillna_def)
  have c: "list_all (\<lambda>x. CHR '' '' \<notin> set (fillna '''' x)) (map f df)"
    if "\<And>r. CHR '' '' \<notin> set (fillna '''' (f (replace_row r)))" for f
    unfolding list_all_iff using row that by fastforce
  show ?thesis
  proof (cases var)
    case Timediff
    then show ?thesis
      using td by (simp add: timediff_str_def list_all_iff fillna_def)
  qed (simp_all add: c replace_row_no_space)
qed

lemma group_in_bidders:
  "a \<in> set (bidders df) \<Longrightarrow> filter (\<lambda>b. bid.bidder_id b = a) df \<noteq> []"
  by (auto simp: bidders_def unique_def filter_empty_conv)

lemma digits_no_space: "CHR '' '' \<notin> set (digits n)"
proof (induction n rule: digits.induct)
  case (1 n)
  have d: "char_of (48 + k) \<noteq> CHR '' ''" if "k < 10" for k :: nat
  proof
    assume "char_of (48 + k) = CHR '' ''"
    then have "of_char (char_of (48 + k)) = (of_char CHR '' '' :: nat)" by simp
    then have "(48 + k) mod 256 = 32" by simp
    with that show False by simp
  qed
  show ?case
  proof (cases "n < 10")
    case True
    then show ?thesis using d [of n] by (subst digits.simps) simp
  next
    case False
    then show ?thesis using 1 d [of "n mod 10"] by (subst digits.simps) simp
  qed
qed

lemma str_whole_no_space: "\<forall>d. CHR '' '' \<notin> set (str_whole d)"
  by (simp add: str_whole_def digits_no_space)

lemma bids_nunique_num_of:
  "map (\<lambda>r. nunique_num r var) (bids str_float df)
     = map (bids_nunique_num str_float df var) (bidders df)"
  by (simp add: bids_def comp_def)

lemma card_tokens:
  "length (remdups (map (token var) xs)) = card (set (map (fillna '''') xs))"
proof -
  have i: "inj (\<lambda>s::string. name var @ ''_'' @ s)" by (rule injI) simp
  have "map (token var) xs = map (\<lambda>s. name var @ ''_'' @ s) (map (fillna '''') xs)"
    by (simp add: token_def)
  then have "set (map (token var) xs) = (\<lambda>s. name var @ ''_'' @ s) ` set (map (fillna '''') xs)"
    by (metis set_map)
  then have "card (set (map (token var) xs)) = card (set (map (fillna '''') xs))"
    using card_image [OF inj_on_subset [OF i subset_UNIV]] by metis
  then show ?thesis by (simp only: length_remdups_card_conv)
qed

text \<open>
  The split of a fingerprint, for one bidder of the sorted frame; and the bidders of the
  frame \<^verbatim>\<open>bids\<close>.
\<close>

lemma tokens_bids_text:
  assumes ns: "\<forall>d. CHR '' '' \<notin> set (str_float d)"
    and a: "a \<in> set (bidders (df_bids_sorted (df_bids raw)))"
  shows "tokens (bids_text str_float (df_bids_sorted (df_bids raw)) var a)
    = token_column str_float var
        (groupby (df_bids_sorted (df_bids raw)) (df_bids_sorted (df_bids raw)) a)"
proof -
  let ?S = "df_bids_sorted (df_bids raw)"
  let ?G = "filter (\<lambda>b. bid.bidder_id b = a) ?S"
  have "set ?G \<subseteq> set (df_bids raw)" by (auto simp add: df_bids_sorted_def)
  with ns have "list_all (\<lambda>x. CHR '' '' \<notin> set (fillna '''' x)) (column str_float var ?G)"
    by (rule column_no_space)
  then have n: "list_all (\<lambda>s. CHR '' '' \<notin> set s) (token_column str_float var ?G)"
    by (simp add: token_column_def list_all_iff token_no_space)
  have "?G \<noteq> []" using a by (rule group_in_bidders)
  then have ne: "token_column str_float var ?G \<noteq> []"
    by (simp add: token_column_def flip: length_0_conv [of "column str_float var ?G"] add: length_column)
  show ?thesis
    using tokens_join [OF ne n]
    by (simp add: bids_text_def groupby_token_column groupby_self)
qed

lemma set_unique: "set (unique xs) = set xs"
  by (simp add: unique_def)

lemma set_bidders_sorted:
  "set (bidders (df_bids_sorted df)) = set (map bid.bidder_id df)"
  by (simp add: bidders_def set_unique df_bids_sorted_def)

lemma bidder_id_bids: "map bids_row.bidder_id (bids str_float df) = bidders df"
  by (simp add: bids_def comp_def)
section \<open>The join keeps the rows of the rosters\<close>

text \<open>
  \<^verbatim>\<open>bids\<close> has one row per bidder, so every roster row finds at most one row to join.
\<close>

lemma distinct_unique: "distinct (unique xs)"
  by (simp add: unique_def)

lemma distinct_bids: "distinct (map bids_row.bidder_id (bids str_float df))"
  by (simp add: bids_def comp_def bidders_def distinct_unique)

lemma filter_key_distinct:
  "distinct (map k xs) \<Longrightarrow> length (filter (\<lambda>r. k r = a) xs) \<le> 1"
proof (induction xs)
  case Nil
  then show ?case by simp
next
  case (Cons x xs)
  show ?case
  proof (cases "k x = a")
    case True
    from Cons.prems have "k x \<notin> k ` set xs" by simp
    with True have "\<forall>y \<in> set xs. k y \<noteq> a" by blast
    then have "filter (\<lambda>r. k r = a) xs = []"
      by (simp add: filter_empty_conv)
    with True show ?thesis by simp
  next
    case False
    with Cons show ?thesis by simp
  qed
qed

lemma length_merge:
  assumes "distinct (map bids_row.bidder_id right)"
  shows "length (merge left right) = length left"
proof -
  have one: "length (case filter (\<lambda>r. bids_row.bidder_id r = test_row.bidder_id l) right of
          [] \<Rightarrow> [merge_row l None]
        | m # ms \<Rightarrow> map (\<lambda>r. merge_row l (Some r)) (m # ms)) = 1" for l
    using filter_key_distinct [OF assms, of "test_row.bidder_id l"]
    by (cases "filter (\<lambda>r. bids_row.bidder_id r = test_row.bidder_id l) right") simp_all
  show ?thesis
    unfolding merge_def length_concat map_map comp_def one
    by (simp add: sum_list_triv)
qed

lemma length_df_combo:
  "length (df_combo str_float raw df_train df_test) = length df_train + length df_test"
  by (simp add: df_combo_def length_merge distinct_bids append_df_def)

lemma truncate_merge_row: "train_row.truncate (merge_row l f) = l"
  by (simp add: merge_row_def train_row.truncate_def train_row.extend_def test_row.truncate_def)

lemma truncate_merge:
  assumes "distinct (map bids_row.bidder_id right)"
  shows "map train_row.truncate (merge left right) = left"
proof -
  have one: "map train_row.truncate
       (case filter (\<lambda>r. bids_row.bidder_id r = test_row.bidder_id l) right of
          [] \<Rightarrow> [merge_row l None]
        | m # ms \<Rightarrow> map (\<lambda>r. merge_row l (Some r)) (m # ms)) = [l]" for l
    using filter_key_distinct [OF assms, of "test_row.bidder_id l"]
    by (cases "filter (\<lambda>r. bids_row.bidder_id r = test_row.bidder_id l) right")
      (simp_all add: truncate_merge_row)
  show ?thesis
    unfolding merge_def map_concat map_map comp_def one
    by (induction left) simp_all
qed

lemma truncate_df_combo:
  "map train_row.truncate (df_combo str_float raw df_train df_test) = append_df df_train df_test"
  by (simp add: df_combo_def truncate_merge distinct_bids)
section \<open>The loop over the seeds\<close>

text \<open>
  When every round gets a vector with one entry per row, the loop is a fold over the
  rounds, and row \<open>j\<close> of its result holds the entries \<open>j\<close> of the vectors.
\<close>

lemma length_store: "length (p i) = length m \<Longrightarrow> length (store p i m) = length m"
  by (simp add: store_def)

lemma set_column_store:
  "length (p i) = length m \<Longrightarrow> set_column m i (p i) = Inr (store p i m)"
  by (simp add: set_column_def store_def)

lemma bag_fold:
  assumes "\<And>i. i \<in> set is \<Longrightarrow> fit_predict (clf\<lparr>seed := i + 1\<rparr>) = Inr (p i) \<and> length (p i) = length m"
  shows "bag fit_predict (clf\<lparr>seed := s\<rparr>) m is = Inr (fold (store p) is m)"
  using assms
proof (induction "is" arbitrary: m s)
  case Nil
  then show ?case by simp
next
  case (Cons i "is")
  have i: "fit_predict (clf\<lparr>seed := i + 1\<rparr>) = Inr (p i)" "length (p i) = length m"
    using Cons.prems [of i] by simp_all
  have "bag fit_predict (clf\<lparr>seed := i + 1\<rparr>) (store p i m) is = Inr (fold (store p) is (store p i m))"
    by (rule Cons.IH) (use Cons.prems i in \<open>simp add: length_store\<close>)
  with i show ?case by (simp add: set_column_store)
qed

lemma fold_store_length:
  "(\<And>i. i \<in> set is \<Longrightarrow> length (p i) = length m) \<Longrightarrow> length (fold (store p) is m) = length m"
  by (induction "is" arbitrary: m) (simp_all add: length_store)

lemma fold_store_nth:
  assumes "\<And>i. i \<in> set is \<Longrightarrow> length (p i) = length m" "j < length m"
  shows "fold (store p) is m ! j = fold (\<lambda>i row. row[i := p i ! j]) is (m ! j)"
  using assms
proof (induction "is" arbitrary: m)
  case Nil
  then show ?case by simp
next
  case (Cons i "is")
  have l: "length (p i) = length m" using Cons.prems(1) [of i] by simp
  have "fold (store p) is (store p i m) ! j = fold (\<lambda>i row. row[i := p i ! j]) is (store p i m ! j)"
    by (rule Cons.IH) (use Cons.prems l in \<open>simp_all add: length_store\<close>)
  moreover have "store p i m ! j = (m ! j)[i := p i ! j]"
    using l Cons.prems(2) by (simp add: store_def)
  ultimately show ?case by simp
qed

lemma fold_update_upt:
  "k \<le> length row \<Longrightarrow> fold (\<lambda>i row. row[i := f i]) [0..<k] row = map f [0..<k] @ drop k row"
proof (induction k)
  case 0
  then show ?case by simp
next
  case (Suc k)
  then have "fold (\<lambda>i row. row[i := f i]) [0..<Suc k] row = (map f [0..<k] @ drop k row)[k := f k]"
    by simp
  also have "\<dots> = map f [0..<k] @ (drop k row)[0 := f k]"
    by (simp add: list_update_append)
  also have "(drop k row)[0 := f k] = f k # drop (Suc k) row"
  proof -
    have "drop k row = row ! k # drop (Suc k) row"
      using Suc.prems by (simp add: Cons_nth_drop_Suc)
    then show ?thesis by simp
  qed
  finally show ?case by simp
qed

section \<open>The order check on arrays of one length\<close>

lemma order_check_mismatch:
  "length s = length t \<Longrightarrow> s \<noteq> t \<Longrightarrow> order_check s t = Inr False"
  by (simp add: order_check_def list_eq_iff_nth_eq list_all2_conv_all_nth)

section \<open>Rounding to float64\<close>




























section \<open>Bounds of a scaled column\<close>







lemma le64_refl: "x \<noteq> NaN \<Longrightarrow> le64 x x"
  by (cases x) simp_all






















section \<open>Counting the selected columns\<close>


























section \<open>What cell 9 writes for the time differences\<close>

text \<open>
  C1. For an actor with at least two bids, \<^verbatim>\<open>mindiff_num\<close> should be the minimum of the
  differences between consecutive timestamps and \<^verbatim>\<open>rangediff_num\<close> their maximum minus
  their minimum. The source computes \<^verbatim>\<open>min_diff\<close> with \<^verbatim>\<open>.max()\<close>: for the bidder with
  bids at 10, 15 and 40 the differences are 5 and 25, and the row of \<^verbatim>\<open>bids\<close> has
  \<^verbatim>\<open>maxdiff_num\<close> 25, \<^verbatim>\<open>mindiff_num\<close> 25 instead of 5 and \<^verbatim>\<open>rangediff_num\<close> 0 instead of 20.
\<close>

theorem mindiff_num_three_bids:
  "present (groupby (df_bids_sorted (df_bids three_bids))
      (timediff (df_bids_sorted (df_bids three_bids))) ''a'') = [5, 25]
   \<and> map (\<lambda>r. (bids_row.bidder_id r, maxdiff_num r, mindiff_num r, rangediff_num r))
        (bids str_whole (df_bids_sorted (df_bids three_bids)))
      = [(''a'', Some 25, Some 25, Some 0)]"
  by code_simp

section \<open>The order check and the submission file\<close>

text \<open>
  C2, as stated: when the bidders of the test partition are not in the order of the
  submission template, the run aborts before it writes the output file. The source
  prints the result of the comparison and goes on. With the log of the six bidders, the
  labeled roster c, d, e, f, the unlabeled roster b, a and the template listing a, b,
  the run prints \<^verbatim>\<open>False\<close> and writes the file: the predictions computed for b and a are
  written against a and b.
\<close>

theorem mismatch_run_goes_on:
  "map sample_row.bidder_id [a_sample_row ''a'', a_sample_row ''b'']
     \<noteq> map test_row.bidder_id (test_dat [a_sample_row ''a'', a_sample_row ''b'']
         (df_combo str_whole six_bidders four_labeled [full_test_row ''b'', full_test_row ''a'']))
   \<and> map test_row.bidder_id
         (df_combo str_whole six_bidders four_labeled [full_test_row ''b'', full_test_row ''a''])
     = [''c'', ''d'', ''e'', ''f'', ''b'', ''a'']
   \<and> cells_13_to_20 five_documents fixed_xgb [a_sample_row ''a'', a_sample_row ''b'']
       (df_combo str_whole six_bidders four_labeled [full_test_row ''b'', full_test_row ''a''])
     = Inr \<lparr>printed = [False],
            written = [\<lparr>sample_row.bidder_id = ''a'', prediction = 1 / 4\<rparr>,
                       \<lparr>sample_row.bidder_id = ''b'', prediction = 3 / 4\<rparr>]\<rparr>"
  by code_simp

text \<open>
  C2, amended: when the test partition has as many rows as the template and its bidders
  are in another order, the run prints \<^verbatim>\<open>False\<close> and goes on; if none of the later
  stages raises, it writes the output file, with the bidders of the template in the
  order of the template and the bagged predictions in the order of the test partition.
\<close>

theorem mismatch_printed_and_written:
  assumes "length (test_dat sample df) = length sample"
    and "map sample_row.bidder_id sample \<noteq> map test_row.bidder_id (test_dat sample df)"
    and "stages df (train_dat df) (test_dat sample df) = Inr (xtrain, xtest)"
    and "bagged_preds (\<lambda>c. xgb c xtrain (map (\<lambda>r. the (outcome r)) (train_dat df)) xtest)
           (length sample) = Inr ps"
  shows "cells_13_to_20 stages xgb sample df
           = Inr \<lparr>printed = [False],
                  written = map2 (\<lambda>r p. r\<lparr>prediction := p\<rparr>) sample ps\<rparr>"
proof -
  have "order_check (map sample_row.bidder_id sample)
          (map test_row.bidder_id (test_dat sample df)) = Inr False"
    using assms(1,2) by (intro order_check_mismatch) simp_all
  with assms(3,4) show ?thesis
    by (simp add: cells_13_to_20_def)
qed

text \<open>
  C2, amended, at the log of the six bidders, the labeled roster c, d, e, f, the
  unlabeled roster a, b and the template listing b, a, with a classifier that predicts
  1/4 and 3/4.
\<close>

theorem mismatch_printed_and_written_witness:
  "cells_13_to_20 five_documents fixed_xgb [a_sample_row ''b'', a_sample_row ''a'']
     (df_combo str_whole six_bidders four_labeled [full_test_row ''a'', full_test_row ''b''])
   = Inr \<lparr>printed = [False],
          written = [\<lparr>sample_row.bidder_id = ''b'', prediction = 1 / 4\<rparr>,
                     \<lparr>sample_row.bidder_id = ''a'', prediction = 3 / 4\<rparr>]\<rparr>"
proof -
  let ?S = "[a_sample_row ''b'', a_sample_row ''a'']"
  let ?D = "df_combo str_whole six_bidders four_labeled [full_test_row ''a'', full_test_row ''b'']"
  have 1: "length (test_dat ?S ?D) = length ?S" by code_simp
  have 2: "map sample_row.bidder_id ?S \<noteq> map test_row.bidder_id (test_dat ?S ?D)" by code_simp
  have "length ?D = 6" by (simp add: length_df_combo four_labeled_def)
  then have 3: "five_documents ?D (train_dat ?D) (test_dat ?S ?D) = Inr ((), ())"
    by (simp add: five_documents_def)
  have 4: "bagged_preds (\<lambda>c. fixed_xgb c () (map (\<lambda>r. the (outcome r)) (train_dat ?D)) ())
           (length ?S) = Inr [1 / 4, 3 / 4]" by code_simp
  have 5: "map2 (\<lambda>r p. r\<lparr>prediction := p\<rparr>) ?S [1 / 4, 3 / 4]
     = [\<lparr>sample_row.bidder_id = ''b'', prediction = 1 / 4\<rparr>,
                     \<lparr>sample_row.bidder_id = ''a'', prediction = 3 / 4\<rparr>]" by code_simp
  from mismatch_printed_and_written [where sample = ?S and df = ?D and stages = five_documents
      and xgb = fixed_xgb and xtrain = "()" and xtest = "()" and ps = "[1 / 4, 3 / 4]",
      OF 1 2 3 4] 5
  show ?thesis by simp
qed
section \<open>The order of the tokens in a fingerprint\<close>

text \<open>
  C3. \<^verbatim>\<open>bids\<close> has one row for each bidder of the bid log. For every such bidder and every
  column of \<^verbatim>\<open>text_cols\<close>, the tokens of the \<^verbatim>\<open>_text\<close> string, as the split on single spaces
  gives them, are the prefixed tokens of the bidder's own rows, one token per row, in the
  order the rows have in the sorted frame. In that order the timestamps ascend, and the
  rows with one and the same timestamp are in the order they have in the input: the sort
  is stable on ties. The bidder's rows are the rows of the input file whose bidder is
  that bidder once cell 3 has removed the spaces, in the order of the file. The
  rendering of a time difference is a parameter; Python's \<^verbatim>\<open>str\<close> of a float has no
  space, which is the hypothesis on \<open>str_float\<close>.
\<close>

theorem text_of_chronological:
  assumes "\<forall>d. CHR '' '' \<notin> set (str_float d)"
  shows "map bids_row.bidder_id (bids str_float (df_bids_sorted (df_bids raw)))
       = bidders (df_bids_sorted (df_bids raw))
   \<and> set (bidders (df_bids_sorted (df_bids raw))) = set (map bid.bidder_id (df_bids raw))
   \<and> map (\<lambda>r. tokens (text_of r var)) (bids str_float (df_bids_sorted (df_bids raw)))
       = map (\<lambda>a. token_column str_float var
                (groupby (df_bids_sorted (df_bids raw)) (df_bids_sorted (df_bids raw)) a))
           (bidders (df_bids_sorted (df_bids raw)))
   \<and> sorted (map time (groupby (df_bids_sorted (df_bids raw)) (df_bids_sorted (df_bids raw)) a))
   \<and> (\<forall>t. filter (\<lambda>b. time b = t)
              (groupby (df_bids_sorted (df_bids raw)) (df_bids_sorted (df_bids raw)) a)
          = filter (\<lambda>b. time b = t) (filter (\<lambda>b. bid.bidder_id b = a) (df_bids raw)))
   \<and> filter (\<lambda>b. bid.bidder_id b = a) (df_bids raw)
       = map replace_row (filter (\<lambda>b. remove_spaces (bid.bidder_id b) = a) raw)"
proof -
  let ?S = "df_bids_sorted (df_bids raw)"
  let ?G = "filter (\<lambda>b. bid.bidder_id b = a) (df_bids raw)"
  have g: "groupby ?S ?S a = sort_key time ?G"
    by (simp add: groupby_self group_sorted)
  have 0: "map bids_row.bidder_id (bids str_float ?S) = bidders ?S"
    by (rule bidder_id_bids)
  have 1: "set (bidders ?S) = set (map bid.bidder_id (df_bids raw))"
    by (rule set_bidders_sorted)
  have "tokens (bids_text str_float ?S var a) = token_column str_float var (groupby ?S ?S a)"
    if "a \<in> set (bidders ?S)" for a
    using assms that by (rule tokens_bids_text)
  then have 2: "map (\<lambda>r. tokens (text_of r var)) (bids str_float ?S)
        = map (\<lambda>a. token_column str_float var (groupby ?S ?S a)) (bidders ?S)"
    by (simp add: bids_def comp_def)
  have 3: "sorted (map time (groupby ?S ?S a))"
    by (simp only: g sorted_sort_key)
  have 4: "filter (\<lambda>b. time b = t) (groupby ?S ?S a) = filter (\<lambda>b. time b = t) ?G" for t
    by (simp only: g sort_key_stable)
  have 5: "?G = map replace_row (filter (\<lambda>b. remove_spaces (bid.bidder_id b) = a) raw)"
    by (simp add: df_bids_def filter_map comp_def replace_row_def)
  from 0 1 2 3 4 5 show ?thesis by blast
qed

text \<open>
  C3 at two bidders and the column \<^verbatim>\<open>merchandise\<close>. Bidder a has the bids 1, 3 and 4 at the
  times 20, 10 and 20: the tokens are those of the bids 3, 1 and 4, in this order.
\<close>

theorem text_of_chronological_witness:
  "map bids_row.bidder_id (bids str_whole (df_bids_sorted (df_bids tied_bids))) = [''a'', ''b'']
   \<and> map (\<lambda>r. tokens (text_of r Merchandise)) (bids str_whole (df_bids_sorted (df_bids tied_bids)))
       = [[''merchandise_y'', ''merchandise_x'', ''merchandise_z''], [''merchandise_w'']]
   \<and> map (\<lambda>b. (bid_id b, time b))
        (groupby (df_bids_sorted (df_bids tied_bids)) (df_bids_sorted (df_bids tied_bids)) ''a'')
       = [(3, 10), (1, 20), (4, 20)]"
proof -
  let ?S = "df_bids_sorted (df_bids tied_bids)"
  have b: "bidders ?S = [''a'', ''b'']" by code_simp
  have e: "map (\<lambda>a. token_column str_whole Merchandise (groupby ?S ?S a)) [''a'', ''b'']
         = [[''merchandise_y'', ''merchandise_x'', ''merchandise_z''], [''merchandise_w'']]"
    by code_simp
  have r: "map (\<lambda>b. (bid_id b, time b)) (groupby ?S ?S ''a'') = [(3, 10), (1, 20), (4, 20)]"
    by code_simp
  from text_of_chronological [OF str_whole_no_space, of tied_bids Merchandise] b e r
  show ?thesis by simp
qed
section \<open>The two partitions of the joined table\<close>

text \<open>
  C4, as stated: the train and test partitions are told apart by the presence of the
  label alone, and their row counts add up to the row count of the two rosters. The
  source selects the test partition with \<^verbatim>\<open>isin(sample.bidder_id)\<close>, not with the label.
  With one bidder in both rosters (and the template listing the unlabeled roster), the
  labeled row is in both partitions: three rows for two roster rows. With a labeled
  roster row whose label is missing, the row is in neither partition: one row for two.
\<close>

theorem partition_sizes_overlap:
  "length (train_dat (df_combo str_whole three_bids [a_train_row ''a'' (Some 1)] [a_test_row ''a'']))
   + length (test_dat [a_sample_row ''a'']
       (df_combo str_whole three_bids [a_train_row ''a'' (Some 1)] [a_test_row ''a'']))
   = 3
   \<and> length [a_train_row ''a'' (Some 1)] + length [a_test_row ''a''] = 2
   \<and> length (train_dat (df_combo str_whole three_bids [a_train_row ''a'' None] [a_test_row ''b'']))
   + length (test_dat [a_sample_row ''b'']
       (df_combo str_whole three_bids [a_train_row ''a'' None] [a_test_row ''b'']))
   = 1
   \<and> length [a_train_row ''a'' None] + length [a_test_row ''b''] = 2"
  by code_simp

text \<open>
  C4, amended: the join keeps the roster rows, each of them once and in the order of the
  concatenated rosters, so the rows with a label and the rows without one add up to
  the row count of the two rosters. The train partition of the source is the rows with a
  label; its test partition is the rows whose bidder is listed in the submission
  template. Whenever every row of the joined table has its bidder in the template
  exactly when its label is missing, the test partition is the rows without a label,
  and the row counts of the two partitions add up to the row count of the two rosters.
\<close>

theorem partition_sizes:
  "map train_row.truncate (df_combo str_float raw df_train df_test) = append_df df_train df_test
   \<and> train_dat (df_combo str_float raw df_train df_test)
       = filter (\<lambda>r. outcome r \<noteq> None) (df_combo str_float raw df_train df_test)
   \<and> test_dat sample (df_combo str_float raw df_train df_test)
       = filter (\<lambda>r. test_row.bidder_id r \<in> set (map sample_row.bidder_id sample))
           (df_combo str_float raw df_train df_test)
   \<and> length (train_dat (df_combo str_float raw df_train df_test))
     + length (filter (\<lambda>r. outcome r = None) (df_combo str_float raw df_train df_test))
     = length df_train + length df_test
   \<and> ((\<forall>r \<in> set (df_combo str_float raw df_train df_test).
          (test_row.bidder_id r \<in> set (map sample_row.bidder_id sample)) = (outcome r = None))
        \<longrightarrow> test_dat sample (df_combo str_float raw df_train df_test)
              = filter (\<lambda>r. outcome r = None) (df_combo str_float raw df_train df_test)
            \<and> length (train_dat (df_combo str_float raw df_train df_test))
                + length (test_dat sample (df_combo str_float raw df_train df_test))
              = length df_train + length df_test)"
proof -
  let ?D = "df_combo str_float raw df_train df_test"
  have "length (train_dat ?D) + length (filter (\<lambda>r. \<not> outcome r \<noteq> None) ?D) = length ?D"
    by (simp only: train_dat_def sum_length_filter_compl)
  then have 1: "length (train_dat ?D) + length (filter (\<lambda>r. outcome r = None) ?D)
      = length df_train + length df_test"
    by (simp add: length_df_combo)
  have 2: "test_dat sample ?D = filter (\<lambda>r. outcome r = None) ?D"
    if "\<forall>r \<in> set ?D.
          (test_row.bidder_id r \<in> set (map sample_row.bidder_id sample)) = (outcome r = None)"
    unfolding test_dat_def using that by (intro filter_cong) auto
  have 3: "train_dat ?D = filter (\<lambda>r. outcome r \<noteq> None) ?D"
    by (simp only: train_dat_def)
  have 4: "test_dat sample ?D
      = filter (\<lambda>r. test_row.bidder_id r \<in> set (map sample_row.bidder_id sample)) ?D"
    by (simp only: test_dat_def)
  have 5: "(\<forall>r \<in> set ?D.
          (test_row.bidder_id r \<in> set (map sample_row.bidder_id sample)) = (outcome r = None))
        \<longrightarrow> test_dat sample ?D = filter (\<lambda>r. outcome r = None) ?D
            \<and> length (train_dat ?D) + length (test_dat sample ?D)
              = length df_train + length df_test"
    using 1 2 by simp
  show ?thesis
    by (intro conjI) (rule truncate_df_combo, rule 3, rule 4, rule 1, rule 5)
qed

text \<open>
  C4, amended, at a labeled roster with bidder a and an unlabeled roster with bidders b
  and c, which the template lists.
\<close>

theorem partition_sizes_witness:
  "length (train_dat (df_combo str_whole three_bids
        [a_train_row ''a'' (Some 1)] [a_test_row ''b'', a_test_row ''c'']))
   + length (test_dat [a_sample_row ''b'', a_sample_row ''c''] (df_combo str_whole three_bids
        [a_train_row ''a'' (Some 1)] [a_test_row ''b'', a_test_row ''c'']))
   = 3
   \<and> map (\<lambda>r. (test_row.bidder_id r, outcome r))
        (test_dat [a_sample_row ''b'', a_sample_row ''c''] (df_combo str_whole three_bids
          [a_train_row ''a'' (Some 1)] [a_test_row ''b'', a_test_row ''c'']))
      = [(''b'', None), (''c'', None)]"
proof -
  let ?D = "df_combo str_whole three_bids
        [a_train_row ''a'' (Some 1)] [a_test_row ''b'', a_test_row ''c'']"
  let ?S = "[a_sample_row ''b'', a_sample_row ''c'']"
  have h: "\<forall>r \<in> set ?D.
    (test_row.bidder_id r \<in> set (map sample_row.bidder_id ?S)) = (outcome r = None)"
    by code_simp
  have t: "map (\<lambda>r. (test_row.bidder_id r, outcome r)) (test_dat ?S ?D)
      = [(''b'', None), (''c'', None)]"
    by code_simp
  from partition_sizes [of str_whole three_bids "[a_train_row ''a'' (Some 1)]"
      "[a_test_row ''b'', a_test_row ''c'']" ?S] h
  have "length (train_dat ?D) + length (test_dat ?S ?D)
      = length [a_train_row ''a'' (Some 1)] + length [a_test_row ''b'', a_test_row ''c'']"
    by blast
  with t show ?thesis by simp
qed

section \<open>The bagged prediction\<close>

text \<open>
  C5. When each of the fifteen rounds gives one probability per test row, the final
  prediction of every test row is the arithmetic mean of the fifteen probabilities of
  that row. The fifteen classifiers are \<^verbatim>\<open>clf\<close> with the seed set to 1, 2, ..., 15 and
  no other parameter changed. \<open>p i\<close> is the vector of round \<open>i\<close>, counted from 0.
\<close>

theorem bagged_preds_mean:
  assumes "\<forall>i<rounds. fit_predict (clf\<lparr>seed := i + 1\<rparr>) = Inr (p i) \<and> length (p i) = n"
  shows "bagged_preds fit_predict n
           = Inr (map (\<lambda>j. (\<Sum>i<15. p i ! j) / 15) [0..<n])"
proof -
  let ?m = "zeros n rounds"
  let ?is = "[0..<rounds]"
  have len: "length ?m = n" by (simp add: zeros_def)
  have hyp: "fit_predict (clf\<lparr>seed := i + 1\<rparr>) = Inr (p i) \<and> length (p i) = length ?m"
    if "i \<in> set ?is" for i
    using that assms len by simp
  have "clf\<lparr>seed := seed clf\<rparr> = clf" by simp
  then have b: "bag fit_predict clf ?m ?is = Inr (fold (store p) ?is ?m)"
    using bag_fold [of ?is fit_predict p ?m "seed clf", OF hyp] by simp
  have lf: "length (fold (store p) ?is ?m) = n"
    using fold_store_length [of ?is p ?m] hyp len by simp
  have row: "fold (store p) ?is ?m ! j = map (\<lambda>i. p i ! j) [0..<rounds]" if "j < n" for j
  proof -
    have "fold (store p) ?is ?m ! j = fold (\<lambda>i row. row[i := p i ! j]) ?is (?m ! j)"
      by (rule fold_store_nth) (use hyp that len in simp_all)
    also have "?m ! j = replicate rounds 0" using that by (simp add: zeros_def)
    also have "fold (\<lambda>i row. row[i := p i ! j]) ?is (replicate rounds 0)
                 = map (\<lambda>i. p i ! j) [0..<rounds] @ drop rounds (replicate rounds (0::real))"
      by (rule fold_update_upt) simp
    finally show ?thesis by simp
  qed
  have "mean_axis1 (fold (store p) ?is ?m)
          = map (\<lambda>j. (\<Sum>i<rounds. p i ! j) / real rounds) [0..<n]"
  proof (rule nth_equalityI)
    show "length (mean_axis1 (fold (store p) ?is ?m))
            = length (map (\<lambda>j. (\<Sum>i<rounds. p i ! j) / real rounds) [0..<n])"
      by (simp add: mean_axis1_def lf)
  next
    fix j assume "j < length (mean_axis1 (fold (store p) ?is ?m))"
    then have j: "j < n" by (simp add: mean_axis1_def lf)
    have "sum_list (map (\<lambda>i. p i ! j) [0..<rounds]) = (\<Sum>i<rounds. p i ! j)"
      by (simp add: interv_sum_list_conv_sum_set_nat atLeast0LessThan)
    moreover have "mean_axis1 (fold (store p) ?is ?m) ! j
        = sum_list (fold (store p) ?is ?m ! j) / real (length (fold (store p) ?is ?m ! j))"
      using j lf by (simp add: mean_axis1_def)
    ultimately show "mean_axis1 (fold (store p) ?is ?m) ! j
        = map (\<lambda>j. (\<Sum>i<rounds. p i ! j) / real rounds) [0..<n] ! j"
      using j by (simp add: row [OF j])
  qed
  with b have "bagged_preds fit_predict n
      = Inr (map (\<lambda>j. (\<Sum>i<rounds. p i ! j) / real rounds) [0..<n])"
    by (simp add: bagged_preds_def)
  then show ?thesis by (simp add: rounds_def)
qed

text \<open>
  C5 at a classifier that predicts its seed for the first of two test rows and 1 for the
  second: the means are (1 + 2 + ... + 15) / 15 = 8 and 1.
\<close>

theorem bagged_preds_mean_witness:
  "bagged_preds seed_xgb 2 = Inr [8, 1]"
proof -
  have h: "\<forall>i<rounds. seed_xgb (clf\<lparr>seed := i + 1\<rparr>) = Inr ((\<lambda>i. [real (i + 1), 1]) i)
      \<and> length ((\<lambda>i. [real (i + 1), 1]) i) = 2"
    by (simp add: seed_xgb_def)
  have e: "map (\<lambda>j. (\<Sum>i<15. (\<lambda>i. [real (i + 1), 1]) i ! j) / 15) [0..<2] = [8, 1]"
    by code_simp
  from bagged_preds_mean [OF h] e show ?thesis by simp
qed

section \<open>The scaled numeric matrices\<close>



section \<open>The number of selected columns\<close>




section \<open>The counts of distinct values\<close>

text \<open>
  C8, as stated: the \<^verbatim>\<open>_nunique_num\<close> count of a bidder and a column is the number of
  distinct values of the column in the bidder's bids. Cell 8 counts the tokens, which are
  built after \<^verbatim>\<open>fillna("")\<close>, so a missing cell and an empty cell give the same token.
  A bidder with one bid without a country and one whose country is a single space in
  the file (empty after cell 3) has two distinct cells in the column and the count 1.
  When a missing cell is not taken for a value, the bidder with a single bid without a
  country has no value in the column and the count 1.
\<close>

theorem nunique_num_blank_country:
  "bids_nunique_num str_whole (df_bids_sorted (df_bids blank_country_bids)) Country ''a'' = 1
   \<and> card (set (groupby (df_bids_sorted (df_bids blank_country_bids))
        (column str_whole Country (df_bids_sorted (df_bids blank_country_bids))) ''a'')) = 2
   \<and> bids_nunique_num str_whole (df_bids_sorted (df_bids lone_bid)) Country ''a'' = 1
   \<and> card (set (present (groupby (df_bids_sorted (df_bids lone_bid))
        (column str_whole Country (df_bids_sorted (df_bids lone_bid))) ''a''))) = 0"
  by code_simp

text \<open>
  C8, amended: for every bidder of the bid log and every column of \<^verbatim>\<open>text_cols\<close>, the
  count is the number of distinct values of the column in the bidder's bids once every
  missing cell is replaced by the empty string.
\<close>

theorem nunique_num_filled:
  "map (\<lambda>r. nunique_num r var) (bids str_float (df_bids_sorted (df_bids raw)))
     = map (\<lambda>a. card (set (map (fillna '''')
                (groupby (df_bids_sorted (df_bids raw))
                   (column str_float var (df_bids_sorted (df_bids raw))) a))))
         (bidders (df_bids_sorted (df_bids raw)))"
  by (simp add: bids_nunique_num_of bids_nunique_num_def token_column_def groupby_map_col
        card_tokens del: set_map)

section \<open>Splitting a fingerprint back into its tokens\<close>

text \<open>
  C9. After cell 3 no string cell of a bid contains a space: not the bidder identity, and
  no cell of a column that cell 8 turns into tokens. Hence, for every row of \<^verbatim>\<open>bids\<close> and
  every column of \<^verbatim>\<open>text_cols\<close>, splitting the \<^verbatim>\<open>_text\<close> string on single spaces gives back
  the prefixed tokens of the bidder's rows, one per bid, in the order of the sorted
  frame. The rendering of a time difference is a parameter; Python's \<^verbatim>\<open>str\<close> of a float
  has no space, which is the hypothesis on \<open>str_float\<close>.
\<close>

theorem tokens_text_of:
  assumes "\<forall>d. CHR '' '' \<notin> set (str_float d)"
  shows "list_all (\<lambda>s. CHR '' '' \<notin> set s) (map bid.bidder_id (df_bids raw))
    \<and> list_all (\<lambda>x. CHR '' '' \<notin> set (fillna '''' x))
         (column str_float var (df_bids_sorted (df_bids raw)))
    \<and> map (\<lambda>r. tokens (text_of r var)) (bids str_float (df_bids_sorted (df_bids raw)))
        = map (\<lambda>a. token_column str_float var
                 (groupby (df_bids_sorted (df_bids raw)) (df_bids_sorted (df_bids raw)) a))
            (bidders (df_bids_sorted (df_bids raw)))"
proof -
  let ?S = "df_bids_sorted (df_bids raw)"
  have 1: "list_all (\<lambda>s. CHR '' '' \<notin> set s) (map bid.bidder_id (df_bids raw))"
    by (simp add: list_all_iff df_bids_def replace_row_no_space)
  have S: "set ?S \<subseteq> set (df_bids raw)"
    by (simp add: df_bids_sorted_def)
  have 2: "list_all (\<lambda>x. CHR '' '' \<notin> set (fillna '''' x)) (column str_float var ?S)"
    using assms S by (rule column_no_space)
  have "tokens (bids_text str_float ?S var a) = token_column str_float var (groupby ?S ?S a)"
    if a: "a \<in> set (bidders ?S)" for a
  proof -
    let ?G = "filter (\<lambda>b. bid.bidder_id b = a) ?S"
    have "set ?G \<subseteq> set (df_bids raw)" using S by auto
    with assms have "list_all (\<lambda>x. CHR '' '' \<notin> set (fillna '''' x)) (column str_float var ?G)"
      by (rule column_no_space)
    then have ns: "list_all (\<lambda>s. CHR '' '' \<notin> set s) (token_column str_float var ?G)"
      by (simp add: token_column_def list_all_iff token_no_space)
    have "?G \<noteq> []" using a by (rule group_in_bidders)
    then have ne: "token_column str_float var ?G \<noteq> []"
      by (simp add: token_column_def flip: length_0_conv [of "column str_float var ?G"] add: length_column)
    show ?thesis
      using tokens_join [OF ne ns]
      by (simp add: bids_text_def groupby_token_column groupby_self)
  qed
  then have 3: "map (\<lambda>r. tokens (text_of r var)) (bids str_float ?S)
        = map (\<lambda>a. token_column str_float var (groupby ?S ?S a)) (bidders ?S)"
    by (simp add: bids_def comp_def)
  from 1 2 3 show ?thesis by blast
qed

text \<open>
  C9 at the bidder with bids at 10, 15 and 40 and the column \<^verbatim>\<open>timediff\<close>, with the
  rendering \<open>str_whole\<close>, which has no space.
\<close>

theorem tokens_text_of_witness:
  "map (\<lambda>r. tokens (text_of r Timediff)) (bids str_whole (df_bids_sorted (df_bids three_bids)))
     = [[''timediff_nan'', ''timediff_5.0'', ''timediff_25.0'']]"
proof -
  have e: "map (\<lambda>a. token_column str_whole Timediff
                 (groupby (df_bids_sorted (df_bids three_bids)) (df_bids_sorted (df_bids three_bids)) a))
            (bidders (df_bids_sorted (df_bids three_bids)))
         = [[''timediff_nan'', ''timediff_5.0'', ''timediff_25.0'']]"
    by code_simp
  from tokens_text_of [OF str_whole_no_space, of three_bids Timediff] e show ?thesis
    by simp
qed

section \<open>The string form of the time differences\<close>

text \<open>
  C10. The \<^verbatim>\<open>timediff_text\<close> string of a bidder should have one token per bid, the first
  of them the bare tag \<^verbatim>\<open>timediff_\<close>, the undefined first difference being rendered as an
  empty string. \<^verbatim>\<open>astype(str)\<close> runs before \<^verbatim>\<open>fillna('')\<close> and has already turned the
  missing difference into the string \<^verbatim>\<open>nan\<close>: for the bidder with bids at 10, 15 and 40
  the string has three tokens, and the first is \<^verbatim>\<open>timediff_nan\<close>.
\<close>

theorem timediff_text_three_bids:
  "map (\<lambda>r. text_of r Timediff) (bids str_whole (df_bids_sorted (df_bids three_bids)))
     = [''timediff_nan timediff_5.0 timediff_25.0'']
   \<and> map (\<lambda>r. tokens (text_of r Timediff)) (bids str_whole (df_bids_sorted (df_bids three_bids)))
     = [[''timediff_nan'', ''timediff_5.0'', ''timediff_25.0'']]"
  by code_simp
end
